theory Spec2Isabelle
  imports Main
begin

section \<open>The table resource of the PostgreSQL provider\<close>

text \<open>
  This theory embeds \<^verbatim>\<open>postgresql/resource_postgresql_table.go\<close>: the lifecycle
  functions of the \<^verbatim>\<open>postgresql_table\<close> resource, the catalog reader
  \<^verbatim>\<open>columns\<close>, the renderer \<^verbatim>\<open>createColumn\<close> and the positional loop of
  \<^verbatim>\<open>alterColumnsIfNeeded\<close>.

  The database, the quoting function of \<^verbatim>\<open>lib/pq\<close> and the attribute container of
  the resource framework are not part of the repository. The database and the quoting
  function are taken as parameters (the record \<open>env\<close>); the attribute container is the
  record \<open>ResourceData\<close>, holding exactly what the functions below read and write.
  The reader/writer lock \<^verbatim>\<open>catalogLock\<close> has no effect on a single sequential call and
  is left out of the state, and so are the calls of \<^verbatim>\<open>log\<close>.
\<close>

subsection \<open>Errors and outcomes\<close>

text \<open>
  A Go \<^verbatim>\<open>error\<close> value is an \<open>error option\<close>, \<open>None\<close> being \<^verbatim>\<open>nil\<close>.
  \<open>Wrapf format err\<close> is \<^verbatim>\<open>errwrap.Wrapf(format, err)\<close> with its format string kept
  verbatim, \<open>ErrorsNew msg\<close> is \<^verbatim>\<open>errors.New(msg)\<close>, \<open>ErrNoRows\<close> is the sentinel
  \<^verbatim>\<open>sql.ErrNoRows\<close> and \<open>DriverError\<close> stands for every other error of the
  database driver.
\<close>

datatype error =
    ErrNoRows
  | DriverError string
  | ErrorsNew string
  | Wrapf string error

text \<open>A call either returns a value or panics (a nil dereference at run time).\<close>

datatype 'a go = Panic | Return 'a

subsection \<open>Columns\<close>

text \<open>
  A declared column is a \<^verbatim>\<open>map[string]interface{}\<close> whose keys and value types are
  fixed by the schema of \<^verbatim>\<open>resourcePostgreSQLTable\<close>: \<^verbatim>\<open>name\<close> and \<^verbatim>\<open>type\<close> are
  required strings, \<^verbatim>\<open>max_length\<close> (int), \<^verbatim>\<open>default\<close> (string) and \<^verbatim>\<open>is_null\<close>
  (bool) are optional. An optional field is \<open>None\<close> when the key is not found in the map.
\<close>

record column =
  name_attr :: string
  type_attr :: string
  max_length_attr :: "int option"
  default_attr :: "string option"
  is_null_attr :: "bool option"

text \<open>
  One row of \<^verbatim>\<open>columnsDescribeQuery\<close> as \<^verbatim>\<open>rows.Scan\<close> stores it: \<^verbatim>\<open>sql.NullString\<close>
  and \<^verbatim>\<open>sql.NullInt64\<close> are options, \<open>None\<close> when \<^verbatim>\<open>Valid\<close> is false.
\<close>

record raw_row =
  row_name :: string
  row_default_expr :: "string option"
  row_is_nullable :: string
  row_column_type :: string
  row_max_length :: "int option"

subsection \<open>The database connection\<close>

text \<open>
  Every call on the connection is recorded, in order, with its statement text and its
  parameter.
\<close>

datatype event =
    ExecEv string
  | QueryRowEv string string
  | QueryEv string string

text \<open>
  The parameters of the model. \<open>Exec\<close>, \<open>QueryRow\<close> and \<open>Query\<close> are the database
  seen through \<^verbatim>\<open>database/sql\<close>, as transformers of an abstract database state:
  \<open>Exec\<close> returns the error of \<^verbatim>\<open>db.Exec\<close>; \<open>QueryRow\<close> returns what
  \<^verbatim>\<open>db.QueryRow(q, arg).Scan(&tableName)\<close> yields, an error or the scanned name;
  \<open>Query\<close> returns the error of \<^verbatim>\<open>db.Query\<close> or the rows that \<^verbatim>\<open>rows.Next\<close> steps
  through, each with the result of its \<^verbatim>\<open>rows.Scan\<close>. \<open>QuoteIdentifier\<close> is
  \<^verbatim>\<open>pq.QuoteIdentifier\<close>. \<open>SetColumn\<close> is the error, if any, with which the framework
  rejects a value written to the \<^verbatim>\<open>column\<close> attribute.
\<close>

record 'db env =
  QuoteIdentifier :: "string \<Rightarrow> string"
  Exec :: "string \<Rightarrow> 'db \<Rightarrow> error option \<times> 'db"
  QueryRow :: "string \<Rightarrow> string \<Rightarrow> 'db \<Rightarrow> (error + string) \<times> 'db"
  Query :: "string \<Rightarrow> string \<Rightarrow> 'db \<Rightarrow> (error + (error + raw_row) list) \<times> 'db"
  SetColumn :: "column list \<Rightarrow> error option"

record 'db world =
  db :: 'db
  trace :: "event list"

definition db_Exec :: "'db env \<Rightarrow> string \<Rightarrow> 'db world \<Rightarrow> error option \<times> 'db world" where
  "db_Exec env sql w =
     (case Exec env sql (db w) of
        (err, s) \<Rightarrow> (err, \<lparr>db = s, trace = trace w @ [ExecEv sql]\<rparr>))"

definition db_QueryRow ::
  "'db env \<Rightarrow> string \<Rightarrow> string \<Rightarrow> 'db world \<Rightarrow> (error + string) \<times> 'db world" where
  "db_QueryRow env q arg w =
     (case QueryRow env q arg (db w) of
        (r, s) \<Rightarrow> (r, \<lparr>db = s, trace = trace w @ [QueryRowEv q arg]\<rparr>))"

definition db_Query ::
  "'db env \<Rightarrow> string \<Rightarrow> string \<Rightarrow> 'db world
     \<Rightarrow> (error + (error + raw_row) list) \<times> 'db world" where
  "db_Query env q arg w =
     (case Query env q arg (db w) of
        (r, s) \<Rightarrow> (r, \<lparr>db = s, trace = trace w @ [QueryEv q arg]\<rparr>))"

subsection \<open>The attribute container\<close>

text \<open>
  \<open>res_id\<close> is \<^verbatim>\<open>d.Id()\<close>, \<open>is_new\<close> is \<^verbatim>\<open>d.IsNewResource()\<close>; \<open>name_old\<close>,
  \<open>name_new\<close> and \<open>column_old\<close>, \<open>column_new\<close> are the pairs returned by
  \<^verbatim>\<open>d.GetChange\<close> for the two attributes; \<open>name_set\<close> and \<open>column_set\<close> hold the
  values written by \<^verbatim>\<open>d.Set\<close>, \<open>None\<close> while nothing has been written.
\<close>

record ResourceData =
  res_id :: string
  is_new :: bool
  name_old :: string
  name_new :: string
  column_old :: "column list"
  column_new :: "column list"
  name_set :: "string option"
  column_set :: "column list option"

definition SetId :: "string \<Rightarrow> ResourceData \<Rightarrow> ResourceData" where
  "SetId v d = d\<lparr>res_id := v\<rparr>"

definition Get_name :: "ResourceData \<Rightarrow> string" where
  "Get_name d = (case name_set d of Some v \<Rightarrow> v | None \<Rightarrow> name_new d)"

definition Set_name :: "string \<Rightarrow> ResourceData \<Rightarrow> ResourceData" where
  "Set_name v d = d\<lparr>name_set := Some v\<rparr>"

definition Set_column :: "column list \<Rightarrow> ResourceData \<Rightarrow> ResourceData" where
  "Set_column v d = d\<lparr>column_set := Some v\<rparr>"

definition HasChange_name :: "ResourceData \<Rightarrow> bool" where
  "HasChange_name d = (name_old d \<noteq> name_new d)"

definition HasChange_column :: "ResourceData \<Rightarrow> bool" where
  "HasChange_column d = (column_old d \<noteq> column_new d)"

subsection \<open>Library functions\<close>

text \<open>\<^verbatim>\<open>strconv.Itoa\<close>: the decimal digits, with a minus sign for a negative number.\<close>

definition digit :: "nat \<Rightarrow> char" where
  "digit n = ''0123456789'' ! n"

fun utoa :: "nat \<Rightarrow> string" where
  "utoa n = (if n < 10 then [digit n] else utoa (n div 10) @ [digit (n mod 10)])"

declare utoa.simps [simp del]

definition Itoa :: "int \<Rightarrow> string" where
  "Itoa i = (if i < 0 then CHR ''-'' # utoa (nat (- i)) else utoa (nat i))"

text \<open>
  \<^verbatim>\<open>strings.ToLower\<close> on a string of ASCII characters: the letters A to Z are
  lowered, every other character is kept. Its only use is the comparison with \<^verbatim>\<open>"yes"\<close>
  in \<^verbatim>\<open>parseIsNullable\<close>, which no character outside ASCII can make true, since
  none of them is lowered to \<^verbatim>\<open>y\<close>, \<^verbatim>\<open>e\<close> or \<^verbatim>\<open>s\<close>.
\<close>

definition lower_char :: "char \<Rightarrow> char" where
  "lower_char c =
     (case map_of (zip ''ABCDEFGHIJKLMNOPQRSTUVWXYZ'' ''abcdefghijklmnopqrstuvwxyz'') c of
        Some l \<Rightarrow> l
      | None \<Rightarrow> c)"

definition ToLower :: "string \<Rightarrow> string" where
  "ToLower s = map lower_char s"

subsection \<open>Create, Delete, Exists\<close>

definition tableExistsQuery :: string where
  "tableExistsQuery =
     ''SELECT table_name FROM information_schema.tables WHERE table_schema='public' and table_name = $1''"

definition tableDescribeQuery :: string where
  "tableDescribeQuery =
     ''SELECT table_name FROM information_schema.tables WHERE table_schema='public' and table_name = $1''"

text \<open>
  The raw string \<^verbatim>\<open>columnsDescribeQuery\<close>, byte for byte: \<open>CHR 0x0A\<close> is the line
  feed and \<open>CHR 0x09\<close> the tab that indent its lines.
\<close>

definition columnsDescribeQuery :: string where
  "columnsDescribeQuery =
     [CHR 0x0A, CHR 0x09] @ ''SELECT ''
     @ [CHR 0x0A, CHR 0x09, CHR 0x09] @ ''column_name as name, ''
     @ [CHR 0x0A, CHR 0x09, CHR 0x09] @ ''column_default as default_expr,''
     @ [CHR 0x0A, CHR 0x09, CHR 0x09] @ ''is_nullable,''
     @ [CHR 0x0A, CHR 0x09, CHR 0x09] @ ''udt_name as column_type,''
     @ [CHR 0x0A, CHR 0x09, CHR 0x09] @ ''character_maximum_length as max_length''
     @ [CHR 0x0A, CHR 0x09] @ ''FROM information_schema.columns ''
     @ [CHR 0x0A, CHR 0x09] @ ''WHERE table_name = $1''
     @ [CHR 0x0A, CHR 0x09] @ ''ORDER BY ordinal_position''
     @ [CHR 0x0A, CHR 0x09]"

definition resourcePostgreSQLTableDelete ::
  "'db env \<Rightarrow> ResourceData \<Rightarrow> 'db world \<Rightarrow> error option go \<times> ResourceData \<times> 'db world" where
  "resourcePostgreSQLTableDelete env d w = (Return None, SetId [] d, w)"

definition resourcePostgreSQLTableExists ::
  "'db env \<Rightarrow> ResourceData \<Rightarrow> 'db world \<Rightarrow> (bool \<times> error option) \<times> 'db world" where
  "resourcePostgreSQLTableExists env d w =
     (case db_QueryRow env tableExistsQuery (res_id d) w of
        (Inl err, w1) \<Rightarrow>
          if err = ErrNoRows then ((False, None), w1) else ((False, Some err), w1)
      | (Inr tableName, w1) \<Rightarrow> ((True, None), w1))"

subsection \<open>The catalog reader\<close>

definition useTypeAlias :: "string \<Rightarrow> string" where
  "useTypeAlias columnType = (if columnType = ''int4'' then ''int'' else columnType)"

definition parseIsNullable :: "string \<Rightarrow> bool" where
  "parseIsNullable data = (ToLower data = ''yes'')"

text \<open>The map built from one scanned row.\<close>

definition column_of_row :: "raw_row \<Rightarrow> column" where
  "column_of_row r =
     \<lparr>name_attr = row_name r,
      type_attr = useTypeAlias (row_column_type r),
      max_length_attr = row_max_length r,
      default_attr = row_default_expr r,
      is_null_attr = Some (parseIsNullable (row_is_nullable r))\<rparr>"

text \<open>
  The loop \<^verbatim>\<open>for rows.Next() { ... }\<close>: a row whose \<^verbatim>\<open>Scan\<close> fails ends the loop with
  the columns gathered so far and that error.
\<close>

fun scan_rows :: "(error + raw_row) list \<Rightarrow> column list \<Rightarrow> column list \<times> error option" where
  "scan_rows [] columns = (columns, None)"
| "scan_rows (Inl err # rest) columns = (columns, Some err)"
| "scan_rows (Inr r # rest) columns = scan_rows rest (columns @ [column_of_row r])"

text \<open>
  \<^verbatim>\<open>rows, _ := db.Query(columnsDescribeQuery, tableName)\<close> drops the error of the query.
  When the query fails \<^verbatim>\<open>rows\<close> is nil, and \<^verbatim>\<open>rows.Next()\<close> dereferences it.
\<close>

definition columns ::
  "'db env \<Rightarrow> string \<Rightarrow> 'db world \<Rightarrow> (column list \<times> error option) go \<times> 'db world" where
  "columns env tableName w =
     (case db_Query env columnsDescribeQuery tableName w of
        (Inl err, w1) \<Rightarrow> (Panic, w1)
      | (Inr rows, w1) \<Rightarrow> (Return (scan_rows rows []), w1))"

definition resourcePostgreSQLTableReadImpl ::
  "'db env \<Rightarrow> ResourceData \<Rightarrow> 'db world \<Rightarrow> error option go \<times> ResourceData \<times> 'db world" where
  "resourcePostgreSQLTableReadImpl env d w =
     (let tableID = res_id d in
      case db_QueryRow env tableDescribeQuery tableID w of
        (Inl err, w1) \<Rightarrow>
          if err = ErrNoRows then (Return None, SetId [] d, w1)
          else (Return (Some (Wrapf (''Error reading TABLE ('' @ tableID @ ''): {{err}}'') err)),
                d, w1)
      | (Inr tableName, w1) \<Rightarrow>
          (let d1 = SetId tableName (Set_name tableName d) in
           case columns env tableName w1 of
             (Panic, w2) \<Rightarrow> (Panic, d1, w2)
           | (Return (cols, Some err), w2) \<Rightarrow>
               (Return (Some (Wrapf (''Error reading columns TABLE ('' @ tableID
                                       @ ''): {{err}}'') err)), d1, w2)
           | (Return (cols, None), w2) \<Rightarrow>
               (case SetColumn env cols of
                  Some err \<Rightarrow>
                    (Return (Some (Wrapf (''Error setting columns TABLE ('' @ tableID
                                            @ ''): {{err}}'') err)), d1, w2)
                | None \<Rightarrow> (Return None, Set_column cols d1, w2))))"

definition resourcePostgreSQLTableRead ::
  "'db env \<Rightarrow> ResourceData \<Rightarrow> 'db world \<Rightarrow> error option go \<times> ResourceData \<times> 'db world" where
  "resourcePostgreSQLTableRead env d w = resourcePostgreSQLTableReadImpl env d w"

subsection \<open>Rename and add-column DDL\<close>

definition rename_sql :: "'db env \<Rightarrow> string \<Rightarrow> string \<Rightarrow> string" where
  "rename_sql env old new =
     ''ALTER TABLE '' @ QuoteIdentifier env old @ '' RENAME TO '' @ QuoteIdentifier env new"

definition renameTableIfNeeded ::
  "'db env \<Rightarrow> ResourceData \<Rightarrow> 'db world \<Rightarrow> error option \<times> ResourceData \<times> 'db world" where
  "renameTableIfNeeded env d w =
     (if \<not> HasChange_name d then (None, d, w)
      else
        (let old = name_old d; new = name_new d in
         if new = [] then (Some (ErrorsNew ''Error setting table name to an empty string''), d, w)
         else
           (case db_Exec env (rename_sql env old new) w of
              (Some err, w1) \<Rightarrow> (Some (Wrapf ''Error updating table NAME: {{err}}'' err), d, w1)
            | (None, w1) \<Rightarrow> (None, SetId new d, w1))))"

definition buildColumnMaxLength :: "column \<Rightarrow> string" where
  "buildColumnMaxLength column =
     (case max_length_attr column of
        Some maxLength \<Rightarrow> if maxLength \<noteq> 0 then ''('' @ Itoa maxLength @ '')'' else []
      | None \<Rightarrow> [])"

definition buildColumnDefault :: "column \<Rightarrow> string" where
  "buildColumnDefault column =
     (case default_attr column of
        Some defaultExpr \<Rightarrow> if defaultExpr \<noteq> [] then '' DEFAULT '' @ defaultExpr else []
      | None \<Rightarrow> [])"

definition buildColumnNotNull :: "column \<Rightarrow> string" where
  "buildColumnNotNull column =
     (case is_null_attr column of
        Some isNull \<Rightarrow> if \<not> isNull then '' NOT NULL'' else []
      | None \<Rightarrow> [])"

text \<open>The statement text that \<^verbatim>\<open>createColumn\<close> builds with \<^verbatim>\<open>fmt.Sprintf\<close>.\<close>

definition createColumn_sql :: "'db env \<Rightarrow> string \<Rightarrow> column \<Rightarrow> string" where
  "createColumn_sql env tableName column =
     (let columnName = name_attr column; columnType = type_attr column in
      ''ALTER TABLE '' @ tableName @ '' ADD COLUMN '' @ QuoteIdentifier env columnName
        @ '' '' @ columnType @ buildColumnMaxLength column @ buildColumnDefault column
        @ buildColumnNotNull column)"

definition createColumn ::
  "'db env \<Rightarrow> string \<Rightarrow> column \<Rightarrow> 'db world \<Rightarrow> error option \<times> 'db world" where
  "createColumn env tableName column w =
     (case db_Exec env (createColumn_sql env tableName column) w of
        (Some err, w1) \<Rightarrow> (Some (Wrapf ''Error updating table NAME: {{err}}'' err), w1)
      | (None, w1) \<Rightarrow> (None, w1))"

text \<open>
  The loop \<^verbatim>\<open>for i, newColumnRaw := range new\<close> of \<^verbatim>\<open>alterColumnsIfNeeded\<close>, from
  index \<open>i\<close> on; \<open>old\<close> is the old column list.
\<close>

fun alter_loop ::
  "'db env \<Rightarrow> ResourceData \<Rightarrow> column list \<Rightarrow> nat \<Rightarrow> column list \<Rightarrow> 'db world
     \<Rightarrow> error option \<times> 'db world" where
  "alter_loop env d old i [] w = (None, w)"
| "alter_loop env d old i (newColumn # rest) w =
     (let isNewColumn = (i \<ge> length old) in
      if isNewColumn then
        (case createColumn env (res_id d) newColumn w of
           (Some err, w1) \<Rightarrow> (Some err, w1)
         | (None, w1) \<Rightarrow> alter_loop env d old (Suc i) rest w1)
      else alter_loop env d old (Suc i) rest w)"

definition alterColumnsIfNeeded ::
  "'db env \<Rightarrow> ResourceData \<Rightarrow> 'db world \<Rightarrow> error option \<times> 'db world" where
  "alterColumnsIfNeeded env d w =
     (if \<not> HasChange_column d then (None, w)
      else alter_loop env d (column_old d) 0 (column_new d) w)"

subsection \<open>Update and Create\<close>

definition resourcePostgreSQLTableUpdateImpl ::
  "'db env \<Rightarrow> ResourceData \<Rightarrow> 'db world \<Rightarrow> error option go \<times> ResourceData \<times> 'db world" where
  "resourcePostgreSQLTableUpdateImpl env d w =
     (case (if \<not> is_new d then renameTableIfNeeded env d w else (None, d, w)) of
        (Some err, d1, w1) \<Rightarrow> (Return (Some err), d1, w1)
      | (None, d1, w1) \<Rightarrow>
          (case alterColumnsIfNeeded env d1 w1 of
             (Some err, w2) \<Rightarrow> (Return (Some err), d1, w2)
           | (None, w2) \<Rightarrow> resourcePostgreSQLTableReadImpl env d1 w2))"

definition resourcePostgreSQLTableUpdate ::
  "'db env \<Rightarrow> ResourceData \<Rightarrow> 'db world \<Rightarrow> error option go \<times> ResourceData \<times> 'db world" where
  "resourcePostgreSQLTableUpdate env d w = resourcePostgreSQLTableUpdateImpl env d w"

definition create_sql :: "'db env \<Rightarrow> string \<Rightarrow> string" where
  "create_sql env tableName = ''CREATE TABLE '' @ QuoteIdentifier env tableName @ '' ()''"

definition resourcePostgreSQLTableCreate ::
  "'db env \<Rightarrow> ResourceData \<Rightarrow> 'db world \<Rightarrow> error option go \<times> ResourceData \<times> 'db world" where
  "resourcePostgreSQLTableCreate env d w =
     (let tableName = Get_name d in
      case db_Exec env (create_sql env tableName) w of
        (Some err, w1) \<Rightarrow>
          (Return (Some (Wrapf (''Error creating table '' @ tableName @ '': {{err}}'') err)),
           d, w1)
      | (None, w1) \<Rightarrow> resourcePostgreSQLTableUpdateImpl env (SetId tableName d) w1)"

section \<open>Auxiliary notions for the statements\<close>

text \<open>
  \<open>db_after env stmts s\<close> is the database after the statements have been handed to
  \<open>Exec\<close> one after another, starting from \<open>s\<close>; \<open>all_accepted env stmts s\<close> holds when
  none of them fails on the way.
\<close>

definition db_after :: "'db env \<Rightarrow> string list \<Rightarrow> 'db \<Rightarrow> 'db" where
  "db_after env stmts s = fold (\<lambda>sql s'. snd (Exec env sql s')) stmts s"

fun all_accepted :: "'db env \<Rightarrow> string list \<Rightarrow> 'db \<Rightarrow> bool" where
  "all_accepted env [] s = True"
| "all_accepted env (x # xs) s =
     (fst (Exec env x s) = None \<and> all_accepted env xs (snd (Exec env x s)))"

text \<open>The number of statements of the list that reach the database: all of them, or those
  up to and including the first one that fails.\<close>

fun attempted :: "'db env \<Rightarrow> string list \<Rightarrow> 'db \<Rightarrow> nat" where
  "attempted env [] s = 0"
| "attempted env (x # xs) s =
     (case Exec env x s of
        (Some err, s1) \<Rightarrow> Suc 0
      | (None, s1) \<Rightarrow> Suc (attempted env xs s1))"

text \<open>
  Executing a list of add-column statements in order, stopping at the first failure with
  the error wrapped as \<^verbatim>\<open>createColumn\<close> wraps it.
\<close>

fun exec_seq :: "'db env \<Rightarrow> string list \<Rightarrow> 'db world \<Rightarrow> error option \<times> 'db world" where
  "exec_seq env [] w = (None, w)"
| "exec_seq env (s # ss) w =
     (case db_Exec env s w of
        (Some err, w1) \<Rightarrow> (Some (Wrapf ''Error updating table NAME: {{err}}'' err), w1)
      | (None, w1) \<Rightarrow> exec_seq env ss w1)"

subsection \<open>Example data\<close>

text \<open>
  A small database for concrete runs. Its state counts the statements executed so far;
  \<open>Exec\<close> rejects the statement that arrives when the count is \<open>bad\<close>, the catalog
  probe answers \<open>found\<close> and the column query answers \<open>rows\<close>.
\<close>

definition demo_quote :: "string \<Rightarrow> string" where
  "demo_quote s = [CHR 0x22] @ s @ [CHR 0x22]"

definition demo_env ::
  "nat \<Rightarrow> (error + string) \<Rightarrow> (error + (error + raw_row) list) \<Rightarrow> nat env" where
  "demo_env bad found rows =
     \<lparr>QuoteIdentifier = demo_quote,
      Exec = (\<lambda>sql n. if n = bad then (Some (DriverError ''rejected''), n) else (None, Suc n)),
      QueryRow = (\<lambda>q arg n. (found, n)),
      Query = (\<lambda>q arg n. (rows, n)),
      SetColumn = (\<lambda>cols. None)\<rparr>"

definition demo_world :: "nat world" where
  "demo_world = \<lparr>db = 0, trace = []\<rparr>"

text \<open>The columns of \<^verbatim>\<open>example/main.tf\<close>, with the zero values the schema gives to the
  optional attributes that are not set, and the rows the catalog reports for them.\<close>

definition col_id :: column where
  "col_id = \<lparr>name_attr = ''id'', type_attr = ''int'', max_length_attr = Some 0,
             default_attr = Some [], is_null_attr = Some False\<rparr>"

definition col_description :: column where
  "col_description = \<lparr>name_attr = ''description'', type_attr = ''varchar'',
             max_length_attr = Some 255, default_attr = Some [], is_null_attr = Some False\<rparr>"

definition col_options :: column where
  "col_options = \<lparr>name_attr = ''options'', type_attr = ''jsonb'', max_length_attr = Some 0,
             default_attr = Some ''now()'', is_null_attr = Some True\<rparr>"

definition row_id :: raw_row where
  "row_id = \<lparr>row_name = ''id'', row_default_expr = None, row_is_nullable = ''NO'',
             row_column_type = ''int4'', row_max_length = None\<rparr>"

definition row_description :: raw_row where
  "row_description = \<lparr>row_name = ''description'', row_default_expr = None,
             row_is_nullable = ''NO'', row_column_type = ''varchar'',
             row_max_length = Some 255\<rparr>"

definition demo_items :: "string \<Rightarrow> column list \<Rightarrow> column list \<Rightarrow> ResourceData" where
  "demo_items new_name old_columns new_columns =
     \<lparr>res_id = ''items'', is_new = False, name_old = ''items'', name_new = new_name,
      column_old = old_columns, column_new = new_columns,
      name_set = None, column_set = None\<rparr>"

definition demo_new_items :: ResourceData where
  "demo_new_items =
     \<lparr>res_id = [], is_new = True, name_old = [], name_new = ''items'',
      column_old = [], column_new = [col_id, col_description],
      name_set = None, column_set = None\<rparr>"

section \<open>Properties\<close>

subsection \<open>Database calls\<close>

lemma db_Exec_eq:
  "db_Exec env sql w =
     (fst (Exec env sql (db w)),
      \<lparr>db = snd (Exec env sql (db w)), trace = trace w @ [ExecEv sql]\<rparr>)"
  by (simp add: db_Exec_def split: prod.splits)

lemma db_QueryRow_eq:
  "db_QueryRow env q arg w =
     (fst (QueryRow env q arg (db w)),
      \<lparr>db = snd (QueryRow env q arg (db w)), trace = trace w @ [QueryRowEv q arg]\<rparr>)"
  by (simp add: db_QueryRow_def split: prod.splits)

lemma db_Query_eq:
  "db_Query env q arg w =
     (fst (Query env q arg (db w)),
      \<lparr>db = snd (Query env q arg (db w)), trace = trace w @ [QueryEv q arg]\<rparr>)"
  by (simp add: db_Query_def split: prod.splits)

lemma db_after_Nil [simp]: "db_after env [] s = s"
  by (simp add: db_after_def)

lemma db_after_Cons [simp]: "db_after env (x # xs) s = db_after env xs (snd (Exec env x s))"
  by (simp add: db_after_def)

lemma db_after_append: "db_after env (xs @ ys) s = db_after env ys (db_after env xs s)"
  by (simp add: db_after_def)

subsection \<open>Statements executed in sequence\<close>

lemma exec_seq_Cons:
  "exec_seq env (x # xs) w =
     (case fst (Exec env x (db w)) of
        Some err \<Rightarrow> (Some (Wrapf ''Error updating table NAME: {{err}}'' err),
                     \<lparr>db = snd (Exec env x (db w)), trace = trace w @ [ExecEv x]\<rparr>)
      | None \<Rightarrow> exec_seq env xs \<lparr>db = snd (Exec env x (db w)), trace = trace w @ [ExecEv x]\<rparr>)"
  by (simp add: db_Exec_eq split: option.splits)

declare exec_seq.simps(2) [simp del]

lemma exec_seq_all_ok:
  "all_accepted env ss (db w) \<Longrightarrow>
   exec_seq env ss w = (None, \<lparr>db = db_after env ss (db w), trace = trace w @ map ExecEv ss\<rparr>)"
proof (induction ss arbitrary: w)
  case Nil
  then show ?case by simp
next
  case (Cons x xs)
  let ?w1 = "\<lparr>db = snd (Exec env x (db w)), trace = trace w @ [ExecEv x]\<rparr>"
  from Cons.prems have hd_ok: "fst (Exec env x (db w)) = None"
    and "all_accepted env xs (db ?w1)"
    by simp_all
  then have "exec_seq env xs ?w1 =
      (None, \<lparr>db = db_after env xs (db ?w1), trace = trace ?w1 @ map ExecEv xs\<rparr>)"
    using Cons.IH by blast
  with hd_ok show ?case by (simp add: exec_seq_Cons)
qed

lemma exec_seq_fail_at:
  "k < length ss \<Longrightarrow>
   all_accepted env (take k ss) (db w) \<Longrightarrow>
   fst (Exec env (ss ! k) (db_after env (take k ss) (db w))) = Some e \<Longrightarrow>
   exec_seq env ss w =
     (Some (Wrapf ''Error updating table NAME: {{err}}'' e),
      \<lparr>db = db_after env (take (Suc k) ss) (db w),
       trace = trace w @ map ExecEv (take (Suc k) ss)\<rparr>)"
proof (induction ss arbitrary: w k)
  case Nil
  then show ?case by simp
next
  case (Cons x xs)
  let ?w1 = "\<lparr>db = snd (Exec env x (db w)), trace = trace w @ [ExecEv x]\<rparr>"
  show ?case
  proof (cases k)
    case 0
    with Cons.prems show ?thesis by (simp add: exec_seq_Cons)
  next
    case (Suc k')
    with Cons.prems have hd_ok: "fst (Exec env x (db w)) = None"
      and len: "k' < length xs"
      and oks: "all_accepted env (take k' xs) (db ?w1)"
      and bad: "fst (Exec env (xs ! k') (db_after env (take k' xs) (db ?w1))) = Some e"
      by simp_all
    have "exec_seq env xs ?w1 =
        (Some (Wrapf ''Error updating table NAME: {{err}}'' e),
         \<lparr>db = db_after env (take (Suc k') xs) (db ?w1),
          trace = trace ?w1 @ map ExecEv (take (Suc k') xs)\<rparr>)"
      by (rule Cons.IH [OF len oks bad])
    with hd_ok Suc show ?thesis by (simp add: exec_seq_Cons)
  qed
qed

lemma exec_seq_snd:
  "snd (exec_seq env ss w) =
     \<lparr>db = db_after env (take (attempted env ss (db w)) ss) (db w),
      trace = trace w @ map ExecEv (take (attempted env ss (db w)) ss)\<rparr>"
proof (induction ss arbitrary: w)
  case Nil
  then show ?case by simp
next
  case (Cons x xs)
  show ?case
    by (cases "Exec env x (db w)") (simp add: exec_seq_Cons Cons.IH split: option.splits)
qed

lemma exec_seq_ok_all_attempted:
  "fst (exec_seq env ss w) = None \<Longrightarrow> attempted env ss (db w) = length ss"
proof (induction ss arbitrary: w)
  case Nil
  then show ?case by simp
next
  case (Cons x xs)
  let ?w1 = "\<lparr>db = snd (Exec env x (db w)), trace = trace w @ [ExecEv x]\<rparr>"
  from Cons.prems have hd_ok: "fst (Exec env x (db w)) = None"
    by (simp add: exec_seq_Cons split: option.splits)
  with Cons.prems have "fst (exec_seq env xs ?w1) = None"
    by (simp add: exec_seq_Cons)
  then have "attempted env xs (db ?w1) = length xs"
    by (rule Cons.IH)
  with hd_ok show ?case
    by (cases "Exec env x (db w)") simp
qed

subsection \<open>The positional loop\<close>

text \<open>
  From index \<open>i\<close> on, the loop creates the columns at the positions that the old list does
  not reach, one statement each, and stops at the first statement that fails.
\<close>

lemma alter_loop_exec_seq:
  "alter_loop env d old i news w =
     exec_seq env (map (createColumn_sql env (res_id d)) (drop (length old - i) news)) w"
proof (induction news arbitrary: i w)
  case Nil
  then show ?case by simp
next
  case (Cons c cs)
  show ?case
  proof (cases "length old \<le> i")
    case True
    then show ?thesis
      using Cons.IH [of "Suc i"]
      by (simp add: createColumn_def exec_seq.simps(2) split: prod.splits option.splits)
  next
    case False
    then have "length old - i = Suc (length old - Suc i)"
      by arith
    then have "drop (length old - i) (c # cs) = drop (length old - Suc i) cs"
      by simp
    with False show ?thesis
      using Cons.IH [of "Suc i"] by simp
  qed
qed

lemma alterColumnsIfNeeded_exec_seq:
  "alterColumnsIfNeeded env d w =
     exec_seq env (map (createColumn_sql env (res_id d))
                     (drop (length (column_old d)) (column_new d))) w"
  by (simp add: alterColumnsIfNeeded_def HasChange_column_def alter_loop_exec_seq)

lemma drop_as_indices: "drop n xs = map (\<lambda>i. xs ! i) [n ..< length xs]"
  by (simp add: list_eq_iff_nth_eq)

subsection \<open>Rendering one column\<close>

lemma buildColumnMaxLength_iff:
  "buildColumnMaxLength column =
     (if \<exists>n. max_length_attr column = Some n \<and> n \<noteq> 0
      then ''('' @ Itoa (the (max_length_attr column)) @ '')'' else [])"
  by (cases "max_length_attr column") (simp_all add: buildColumnMaxLength_def)

lemma buildColumnDefault_iff:
  "buildColumnDefault column =
     (if \<exists>e. default_attr column = Some e \<and> e \<noteq> []
      then '' DEFAULT '' @ the (default_attr column) else [])"
  by (cases "default_attr column") (simp_all add: buildColumnDefault_def)

lemma buildColumnNotNull_iff:
  "buildColumnNotNull column = (if is_null_attr column = Some False then '' NOT NULL'' else [])"
  by (cases "is_null_attr column") (simp_all add: buildColumnNotNull_def)

lemma createColumn_Exec:
  "createColumn env tableName column w =
     (map_option (Wrapf ''Error updating table NAME: {{err}}'')
        (fst (Exec env (createColumn_sql env tableName column) (db w))),
      \<lparr>db = snd (Exec env (createColumn_sql env tableName column) (db w)),
       trace = trace w @ [ExecEv (createColumn_sql env tableName column)]\<rparr>)"
  by (simp add: createColumn_def db_Exec_eq split: option.splits)

lemma Itoa_255: "Itoa 255 = ''255''"
  by (simp add: Itoa_def utoa.simps digit_def)

subsection \<open>The catalog reader and the read-back\<close>

lemma scan_rows_ok:
  "scan_rows rows acc = (cols, None) \<Longrightarrow>
   \<exists>rs. rows = map Inr rs \<and> cols = acc @ map column_of_row rs"
proof (induction rows acc rule: scan_rows.induct)
  case (1 columns)
  then show ?case by simp
next
  case (2 err rest columns)
  then show ?case by simp
next
  case (3 r rest columns)
  then obtain rs where
    "rest = map Inr rs" "cols = (columns @ [column_of_row r]) @ map column_of_row rs"
    by auto
  then have "Inr r # rest = map Inr (r # rs) \<and> cols = columns @ map column_of_row (r # rs)"
    by simp
  then show ?case by (rule exI [of _ "r # rs"])
qed

lemma scan_rows_all_scanned: "scan_rows (map Inr rs) acc = (acc @ map column_of_row rs, None)"
  by (induction rs arbitrary: acc) simp_all

lemma scan_rows_first_error:
  "scan_rows (map Inr rs @ Inl e # rest) acc = (acc @ map column_of_row rs, Some e)"
  by (induction rs arbitrary: acc) simp_all

text \<open>A row that fails to scan ends \<^verbatim>\<open>columns\<close> with that error.\<close>

lemma columns_scan_error_returned:
  "fst (Query env columnsDescribeQuery tableName (db w)) = Inr (map Inr rs @ Inl e # rest) \<Longrightarrow>
   fst (columns env tableName w) = Return (map column_of_row rs, Some e)"
  by (simp add: columns_def db_Query_eq scan_rows_first_error)

text \<open>A query that fails makes \<^verbatim>\<open>columns\<close> panic, whatever the error is.\<close>

lemma columns_query_error_panics:
  "fst (Query env columnsDescribeQuery tableName (db w)) = Inl e \<Longrightarrow>
   columns env tableName w =
     (Panic, \<lparr>db = snd (Query env columnsDescribeQuery tableName (db w)),
              trace = trace w @ [QueryEv columnsDescribeQuery tableName]\<rparr>)"
  by (simp add: columns_def db_Query_eq)

lemma columns_trace:
  "trace (snd (columns env t w)) = trace w @ [QueryEv columnsDescribeQuery t]"
  by (simp add: columns_def db_Query_eq split: sum.splits)

lemma read_impl_trace:
  "\<exists>rb. trace (snd (snd (resourcePostgreSQLTableReadImpl env d w))) = trace w @ rb \<and>
        (rb = [QueryRowEv tableDescribeQuery (res_id d)] \<or>
         (\<exists>nm. rb = [QueryRowEv tableDescribeQuery (res_id d), QueryEv columnsDescribeQuery nm]))"
proof (cases "fst (QueryRow env tableDescribeQuery (res_id d) (db w))")
  case (Inl e)
  then show ?thesis
    by (simp add: resourcePostgreSQLTableReadImpl_def db_QueryRow_eq Let_def)
next
  case (Inr nm)
  let ?w1 = "\<lparr>db = snd (QueryRow env tableDescribeQuery (res_id d) (db w)),
              trace = trace w @ [QueryRowEv tableDescribeQuery (res_id d)]\<rparr>"
  have "trace (snd (snd (resourcePostgreSQLTableReadImpl env d w)))
          = trace (snd (columns env nm ?w1))"
    using Inr
    by (cases "columns env nm ?w1")
       (simp add: resourcePostgreSQLTableReadImpl_def db_QueryRow_eq Let_def
             split: go.splits option.splits prod.splits)
  then show ?thesis by (simp add: columns_trace)
qed

lemma read_impl_absent:
  "fst (QueryRow env tableDescribeQuery (res_id d) (db w)) = Inl ErrNoRows \<Longrightarrow>
   resourcePostgreSQLTableReadImpl env d w =
     (Return None, d\<lparr>res_id := []\<rparr>,
      \<lparr>db = snd (QueryRow env tableDescribeQuery (res_id d) (db w)),
       trace = trace w @ [QueryRowEv tableDescribeQuery (res_id d)]\<rparr>)"
  by (simp add: resourcePostgreSQLTableReadImpl_def db_QueryRow_eq Let_def SetId_def)

lemma read_impl_ok:
  assumes "fst (resourcePostgreSQLTableReadImpl env d w) = Return None"
  shows "case QueryRow env tableDescribeQuery (res_id d) (db w) of
           (Inl e, s3) \<Rightarrow>
             e = ErrNoRows \<and>
             snd (resourcePostgreSQLTableReadImpl env d w) =
               (d\<lparr>res_id := []\<rparr>,
                \<lparr>db = s3, trace = trace w @ [QueryRowEv tableDescribeQuery (res_id d)]\<rparr>)
         | (Inr nm, s3) \<Rightarrow>
             (\<exists>rs s4. Query env columnsDescribeQuery nm s3 = (Inr (map Inr rs), s4) \<and>
                snd (resourcePostgreSQLTableReadImpl env d w) =
                  (d\<lparr>res_id := nm, name_set := Some nm,
                     column_set := Some (map column_of_row rs)\<rparr>,
                   \<lparr>db = s4,
                    trace = trace w @ [QueryRowEv tableDescribeQuery (res_id d),
                                       QueryEv columnsDescribeQuery nm]\<rparr>))"
proof (cases "QueryRow env tableDescribeQuery (res_id d) (db w)")
  case (Pair r s3)
  show ?thesis
  proof (cases r)
    case (Inl e)
    with Pair assms have "e = ErrNoRows"
      by (simp add: resourcePostgreSQLTableReadImpl_def db_QueryRow_eq Let_def split: if_splits)
    with Pair Inl show ?thesis
      using read_impl_absent [of env d w] by simp
  next
    case (Inr nm)
    let ?w1 = "\<lparr>db = s3, trace = trace w @ [QueryRowEv tableDescribeQuery (res_id d)]\<rparr>"
    from Pair Inr assms have ok: "fst (columns env nm ?w1) \<noteq> Panic"
      by (auto simp: resourcePostgreSQLTableReadImpl_def db_QueryRow_eq Let_def
               split: prod.splits go.splits)
    then obtain rows s4 where q: "Query env columnsDescribeQuery nm s3 = (Inr rows, s4)"
      by (cases "Query env columnsDescribeQuery nm s3")
         (auto simp: columns_def db_Query_eq split: sum.splits)
    then have c: "columns env nm ?w1 =
        (Return (scan_rows rows []),
         \<lparr>db = s4, trace = trace w @ [QueryRowEv tableDescribeQuery (res_id d),
                                        QueryEv columnsDescribeQuery nm]\<rparr>)"
      by (simp add: columns_def db_Query_eq)
    obtain cols err where sc: "scan_rows rows [] = (cols, err)"
      by (cases "scan_rows rows []")
    with Pair Inr assms c have "err = None"
      by (auto simp: resourcePostgreSQLTableReadImpl_def db_QueryRow_eq Let_def
               split: option.splits)
    with sc obtain rs where rs: "rows = map Inr rs" "cols = map column_of_row rs"
      using scan_rows_ok [of rows "[]" cols] by auto
    from Pair Inr assms c sc \<open>err = None\<close> have set_ok: "SetColumn env cols = None"
      by (auto simp: resourcePostgreSQLTableReadImpl_def db_QueryRow_eq Let_def
               split: option.splits)
    from Pair Inr c sc \<open>err = None\<close> set_ok rs q show ?thesis
      by (simp add: resourcePostgreSQLTableReadImpl_def db_QueryRow_eq Let_def
            SetId_def Set_name_def Set_column_def)
  qed
qed

subsection \<open>The steps of an update\<close>

lemma rename_step:
  "(if \<not> is_new d then renameTableIfNeeded env d w else (None, d, w)) =
     (if \<not> is_new d \<and> name_old d \<noteq> name_new d then
        if name_new d = [] then
          (Some (ErrorsNew ''Error setting table name to an empty string''), d, w)
        else
          (case fst (Exec env (rename_sql env (name_old d) (name_new d)) (db w)) of
             Some err \<Rightarrow>
               (Some (Wrapf ''Error updating table NAME: {{err}}'' err), d,
                \<lparr>db = snd (Exec env (rename_sql env (name_old d) (name_new d)) (db w)),
                 trace = trace w @ [ExecEv (rename_sql env (name_old d) (name_new d))]\<rparr>)
           | None \<Rightarrow>
               (None, d\<lparr>res_id := name_new d\<rparr>,
                \<lparr>db = snd (Exec env (rename_sql env (name_old d) (name_new d)) (db w)),
                 trace = trace w @ [ExecEv (rename_sql env (name_old d) (name_new d))]\<rparr>))
      else (None, d, w))"
  by (simp add: renameTableIfNeeded_def HasChange_name_def Let_def db_Exec_eq SetId_def
        split: option.splits)

text \<open>The part of the update after the rename step: column DDL, then the read-back.\<close>

lemma columns_then_read_trace:
  fixes env d1 w1
  defines "adds \<equiv> map (createColumn_sql env (res_id d1))
                     (drop (length (column_old d1)) (column_new d1))"
  defines "r \<equiv> (case alterColumnsIfNeeded env d1 w1 of
                  (Some err, w2) \<Rightarrow> (Return (Some err), d1, w2)
                | (None, w2) \<Rightarrow> resourcePostgreSQLTableReadImpl env d1 w2)"
  shows "\<exists>k rb. trace (snd (snd r)) = trace w1 @ map ExecEv (take k adds) @ rb \<and>
           (rb = [] \<or>
            length adds \<le> k \<and>
            (rb = [QueryRowEv tableDescribeQuery (res_id d1)] \<or>
             (\<exists>nm. rb = [QueryRowEv tableDescribeQuery (res_id d1),
                         QueryEv columnsDescribeQuery nm])))"
proof (cases "fst (exec_seq env adds w1)")
  case None
  then have k: "attempted env adds (db w1) = length adds"
    by (rule exec_seq_ok_all_attempted)
  let ?w2 = "snd (exec_seq env adds w1)"
  have w2: "trace ?w2 = trace w1 @ map ExecEv adds"
    using k by (simp add: exec_seq_snd)
  have r: "r = resourcePostgreSQLTableReadImpl env d1 ?w2"
    using None
    by (cases "exec_seq env adds w1")
       (simp add: r_def adds_def alterColumnsIfNeeded_exec_seq)
  from read_impl_trace [of env d1 ?w2] obtain rb where
    rb: "trace (snd (snd r)) = trace ?w2 @ rb"
        "rb = [QueryRowEv tableDescribeQuery (res_id d1)] \<or>
         (\<exists>nm. rb = [QueryRowEv tableDescribeQuery (res_id d1), QueryEv columnsDescribeQuery nm])"
    unfolding r by (elim exE conjE)
  have "trace (snd (snd r)) = trace w1 @ map ExecEv (take (length adds) adds) @ rb"
    using rb(1) w2 by simp
  with rb(2) show ?thesis
    by (intro exI [of _ "length adds"] exI [of _ rb]) simp
next
  case (Some err)
  then have r: "snd (snd r) = snd (exec_seq env adds w1)"
    by (cases "exec_seq env adds w1")
       (simp add: r_def adds_def alterColumnsIfNeeded_exec_seq)
  show ?thesis
    by (intro exI [of _ "attempted env adds (db w1)"] exI [of _ "[]"])
       (simp add: r exec_seq_snd)
qed

lemma columns_then_read_ok:
  fixes env d1 w1
  defines "adds \<equiv> map (createColumn_sql env (res_id d1))
                     (drop (length (column_old d1)) (column_new d1))"
  defines "r \<equiv> (case alterColumnsIfNeeded env d1 w1 of
                  (Some err, w2) \<Rightarrow> (Return (Some err), d1, w2)
                | (None, w2) \<Rightarrow> resourcePostgreSQLTableReadImpl env d1 w2)"
  assumes "fst r = Return None"
  shows "r = resourcePostgreSQLTableReadImpl env d1
               \<lparr>db = db_after env adds (db w1), trace = trace w1 @ map ExecEv adds\<rparr>"
proof (cases "fst (exec_seq env adds w1)")
  case None
  then have k: "attempted env adds (db w1) = length adds"
    by (rule exec_seq_ok_all_attempted)
  from None show ?thesis
    using exec_seq_snd [of env adds w1] k
    by (cases "exec_seq env adds w1")
       (simp add: r_def adds_def alterColumnsIfNeeded_exec_seq)
next
  case (Some err)
  with assms(3) show ?thesis
    by (cases "exec_seq env adds w1")
       (simp add: r_def adds_def alterColumnsIfNeeded_exec_seq)
qed

lemma columns_then_read_result:
  fixes env d1 w1
  defines "adds \<equiv> map (createColumn_sql env (res_id d1))
                     (drop (length (column_old d1)) (column_new d1))"
  defines "r \<equiv> (case alterColumnsIfNeeded env d1 w1 of
                  (Some err, w2) \<Rightarrow> (Return (Some err), d1, w2)
                | (None, w2) \<Rightarrow> resourcePostgreSQLTableReadImpl env d1 w2)"
  assumes "fst r = Return None"
  shows "case QueryRow env tableDescribeQuery (res_id d1) (db_after env adds (db w1)) of
           (Inl e, s3) \<Rightarrow>
             e = ErrNoRows \<and>
             snd r =
               (d1\<lparr>res_id := []\<rparr>,
                \<lparr>db = s3,
                 trace = trace w1 @ map ExecEv adds
                           @ [QueryRowEv tableDescribeQuery (res_id d1)]\<rparr>)
         | (Inr nm, s3) \<Rightarrow>
             (\<exists>rs s4. Query env columnsDescribeQuery nm s3 = (Inr (map Inr rs), s4) \<and>
                snd r =
                  (d1\<lparr>res_id := nm, name_set := Some nm,
                      column_set := Some (map column_of_row rs)\<rparr>,
                   \<lparr>db = s4,
                    trace = trace w1 @ map ExecEv adds
                              @ [QueryRowEv tableDescribeQuery (res_id d1),
                                 QueryEv columnsDescribeQuery nm]\<rparr>))"
proof -
  let ?W = "\<lparr>db = db_after env adds (db w1), trace = trace w1 @ map ExecEv adds\<rparr>"
  have r: "r = resourcePostgreSQLTableReadImpl env d1 ?W"
    using assms(3) unfolding r_def adds_def by (rule columns_then_read_ok)
  with assms(3) have "fst (resourcePostgreSQLTableReadImpl env d1 ?W) = Return None"
    by simp
  from read_impl_ok [OF this] show ?thesis
    unfolding r by (simp split: prod.splits sum.splits)
qed

lemma tail_shape:
  fixes env d w ren cur d1 w1
  defines "adds \<equiv> map (createColumn_sql env cur)
                     (drop (length (column_old d)) (column_new d))"
  defines "r \<equiv> (case alterColumnsIfNeeded env d1 w1 of
                  (Some err, w2) \<Rightarrow> (Return (Some err), d1, w2)
                | (None, w2) \<Rightarrow> resourcePostgreSQLTableReadImpl env d1 w2)"
  assumes d1: "d1 = d\<lparr>res_id := cur\<rparr>"
      and db1: "db w1 = db_after env ren (db w)"
      and tr1: "trace w1 = trace w @ map ExecEv ren"
  shows "(\<exists>k rb. trace (snd (snd r)) = trace w @ map ExecEv (ren @ take k adds) @ rb \<and>
         (rb = [] \<or>
          length adds \<le> k \<and>
          (rb = [QueryRowEv tableDescribeQuery cur] \<or>
           (\<exists>nm. rb = [QueryRowEv tableDescribeQuery cur, QueryEv columnsDescribeQuery nm]))))
    \<and> (fst r = Return None \<longrightarrow>
         (case QueryRow env tableDescribeQuery cur (db_after env (ren @ adds) (db w)) of
            (Inl e, s3) \<Rightarrow>
              e = ErrNoRows \<and>
              snd r =
                (d\<lparr>res_id := []\<rparr>,
                 \<lparr>db = s3,
                  trace = trace w @ map ExecEv (ren @ adds)
                            @ [QueryRowEv tableDescribeQuery cur]\<rparr>)
          | (Inr nm, s3) \<Rightarrow>
              (\<exists>rs s4. Query env columnsDescribeQuery nm s3 = (Inr (map Inr rs), s4) \<and>
                 snd r =
                   (d\<lparr>res_id := nm, name_set := Some nm,
                      column_set := Some (map column_of_row rs)\<rparr>,
                    \<lparr>db = s4,
                     trace = trace w @ map ExecEv (ren @ adds)
                               @ [QueryRowEv tableDescribeQuery cur,
                                  QueryEv columnsDescribeQuery nm]\<rparr>))))"
proof (intro conjI impI)
  have adds1: "map (createColumn_sql env (res_id d1))
                 (drop (length (column_old d1)) (column_new d1)) = adds"
    by (simp add: adds_def d1)
  from columns_then_read_trace [of env d1 w1]
  obtain k rb where
    t: "trace (snd (snd r)) = trace w1 @ map ExecEv (take k adds) @ rb"
    and rb: "rb = [] \<or> length adds \<le> k \<and>
               (rb = [QueryRowEv tableDescribeQuery (res_id d1)] \<or>
                (\<exists>nm. rb = [QueryRowEv tableDescribeQuery (res_id d1),
                            QueryEv columnsDescribeQuery nm]))"
    unfolding adds1 r_def by (elim exE conjE)
  have cur: "res_id d1 = cur" by (simp add: d1)
  have "trace (snd (snd r)) = trace w @ map ExecEv (ren @ take k adds) @ rb"
    using t tr1 by simp
  with rb [unfolded cur]
  show "\<exists>k rb. trace (snd (snd r)) = trace w @ map ExecEv (ren @ take k adds) @ rb \<and>
         (rb = [] \<or>
          length adds \<le> k \<and>
          (rb = [QueryRowEv tableDescribeQuery cur] \<or>
           (\<exists>nm. rb = [QueryRowEv tableDescribeQuery cur, QueryEv columnsDescribeQuery nm])))"
    by (intro exI [of _ k] exI [of _ rb] conjI)
next
  assume ok: "fst r = Return None"
  have adds1: "map (createColumn_sql env (res_id d1))
                 (drop (length (column_old d1)) (column_new d1)) = adds"
    by (simp add: adds_def d1)
  from columns_then_read_result [of env d1 w1] ok
  show "case QueryRow env tableDescribeQuery cur (db_after env (ren @ adds) (db w)) of
            (Inl e, s3) \<Rightarrow>
              e = ErrNoRows \<and>
              snd r =
                (d\<lparr>res_id := []\<rparr>,
                 \<lparr>db = s3,
                  trace = trace w @ map ExecEv (ren @ adds)
                            @ [QueryRowEv tableDescribeQuery cur]\<rparr>)
          | (Inr nm, s3) \<Rightarrow>
              (\<exists>rs s4. Query env columnsDescribeQuery nm s3 = (Inr (map Inr rs), s4) \<and>
                 snd r =
                   (d\<lparr>res_id := nm, name_set := Some nm,
                      column_set := Some (map column_of_row rs)\<rparr>,
                    \<lparr>db = s4,
                     trace = trace w @ map ExecEv (ren @ adds)
                               @ [QueryRowEv tableDescribeQuery cur,
                                  QueryEv columnsDescribeQuery nm]\<rparr>))"
    unfolding adds1 r_def [symmetric]
    by (simp add: d1 db1 tr1 db_after_append split: prod.splits sum.splits)
qed

section \<open>The claims\<close>

subsection \<open>C1: the column differ\<close>

text \<open>
  C1. The column differ is append-only and strictly positional. Whatever the old and new
  column lists are, the add-column statements that \<^verbatim>\<open>alterColumnsIfNeeded\<close> issues are
  those of the indices \<open>i\<close> of the new list with \<open>length old \<le> i\<close>, in increasing order:
  the statements issued are always an initial part of that list (the loop stops at a
  statement that fails), they are the whole list when the function returns nil, and no
  index below \<open>length old\<close> ever gets a statement. In particular a new list that is not
  longer than the old one (a removal, or a reordering of the same length) issues nothing
  and changes nothing.
\<close>

theorem column_differ_append_only:
  "let old = column_old d; new = column_new d;
       adds = map (\<lambda>i. ExecEv (createColumn_sql env (res_id d) (new ! i)))
                [length old ..< length new];
       r = alterColumnsIfNeeded env d w
   in (\<exists>k. trace (snd r) = trace w @ take k adds) \<and>
      (fst r = None \<longrightarrow> trace (snd r) = trace w @ adds) \<and>
      (length new \<le> length old \<longrightarrow> r = (None, w))"
proof -
  let ?stmts = "map (createColumn_sql env (res_id d))
                  (drop (length (column_old d)) (column_new d))"
  let ?adds = "map (\<lambda>i. ExecEv (createColumn_sql env (res_id d) (column_new d ! i)))
                 [length (column_old d) ..< length (column_new d)]"
  have adds: "?adds = map ExecEv ?stmts"
    by (simp add: drop_as_indices [of "length (column_old d)" "column_new d"])
  have r: "alterColumnsIfNeeded env d w = exec_seq env ?stmts w"
    by (rule alterColumnsIfNeeded_exec_seq)
  have a: "\<exists>k. trace (snd (exec_seq env ?stmts w)) = trace w @ take k ?adds"
    unfolding adds
    by (rule exI [of _ "attempted env ?stmts (db w)"]) (simp add: exec_seq_snd take_map)
  have b: "fst (exec_seq env ?stmts w) = None \<longrightarrow>
           trace (snd (exec_seq env ?stmts w)) = trace w @ ?adds"
    unfolding adds using exec_seq_ok_all_attempted [of env ?stmts w]
    by (simp add: exec_seq_snd)
  have c: "length (column_new d) \<le> length (column_old d) \<longrightarrow>
           exec_seq env ?stmts w = (None, w)"
    by simp
  from a b c show ?thesis
    unfolding Let_def r by (intro conjI)
qed

text \<open>
  The cases of the specification: old \<open>[id]\<close>, new \<open>[id, description]\<close> issues exactly one
  statement, for \<open>description\<close>; old \<open>[id, description]\<close>, new \<open>[id]\<close> issues none; old
  \<open>[id, description]\<close>, new \<open>[description, id]\<close> issues none.
\<close>

theorem column_differ_append_only_witness:
  \<open>fst (alterColumnsIfNeeded (demo_env 7 (Inr ''items'') (Inr []))
          (demo_items ''items'' [col_id] [col_id, col_description]) demo_world) = None
   \<and> trace (snd (alterColumnsIfNeeded (demo_env 7 (Inr ''items'') (Inr []))
          (demo_items ''items'' [col_id] [col_id, col_description]) demo_world))
       = [ExecEv ''ALTER TABLE items ADD COLUMN "description" varchar(255) NOT NULL'']
   \<and> alterColumnsIfNeeded (demo_env 7 (Inr ''items'') (Inr []))
          (demo_items ''items'' [col_id, col_description] [col_id]) demo_world
       = (None, demo_world)
   \<and> alterColumnsIfNeeded (demo_env 7 (Inr ''items'') (Inr []))
          (demo_items ''items'' [col_id, col_description] [col_description, col_id]) demo_world
       = (None, demo_world)\<close>
  using
    column_differ_append_only [of "demo_items ''items'' [col_id] [col_id, col_description]"
      "demo_env 7 (Inr ''items'') (Inr [])" demo_world]
    column_differ_append_only [of "demo_items ''items'' [col_id, col_description] [col_id]"
      "demo_env 7 (Inr ''items'') (Inr [])" demo_world]
    column_differ_append_only
      [of "demo_items ''items'' [col_id, col_description] [col_description, col_id]"
      "demo_env 7 (Inr ''items'') (Inr [])" demo_world]
  by (simp add: alterColumnsIfNeeded_def HasChange_column_def createColumn_Exec
        createColumn_sql_def buildColumnMaxLength_def buildColumnDefault_def
        buildColumnNotNull_def Itoa_255 demo_env_def demo_quote_def demo_items_def
        demo_world_def col_id_def col_description_def Let_def)

subsection \<open>C2: the add-column statement\<close>

text \<open>
  C2. For every column descriptor, table name and connection state, \<^verbatim>\<open>createColumn\<close>
  issues exactly one statement, whose text is
  \<^verbatim>\<open>ALTER TABLE <name> ADD COLUMN <quoted-column-name> <type>\<close> followed by \<^verbatim>\<open>(<n>)\<close>
  when and only when \<^verbatim>\<open>max_length\<close> is present and not zero, by \<^verbatim>\<open> DEFAULT <expr>\<close>
  when and only when \<^verbatim>\<open>default\<close> is present and not empty, and by \<^verbatim>\<open> NOT NULL\<close> when
  and only when \<^verbatim>\<open>is_null\<close> is (present and) false. The column name goes through the
  identifier quoting, the table name is inserted as it is. The result is nil when the
  database accepts the statement and its error, wrapped, otherwise.
\<close>

theorem create_column_statement:
  "createColumn env tableName column w =
     (let sql = ''ALTER TABLE '' @ tableName @ '' ADD COLUMN ''
                @ QuoteIdentifier env (name_attr column) @ '' '' @ type_attr column
                @ (if \<exists>n. max_length_attr column = Some n \<and> n \<noteq> 0
                   then ''('' @ Itoa (the (max_length_attr column)) @ '')'' else [])
                @ (if \<exists>e. default_attr column = Some e \<and> e \<noteq> []
                   then '' DEFAULT '' @ the (default_attr column) else [])
                @ (if is_null_attr column = Some False then '' NOT NULL'' else [])
      in (map_option (Wrapf ''Error updating table NAME: {{err}}'') (fst (Exec env sql (db w))),
          \<lparr>db = snd (Exec env sql (db w)), trace = trace w @ [ExecEv sql]\<rparr>))"
  unfolding createColumn_Exec createColumn_sql_def Let_def
    buildColumnMaxLength_iff buildColumnDefault_iff buildColumnNotNull_iff
  by (rule refl)

text \<open>
  Two columns of the examples: \<open>description\<close> with a length and no default, not nullable,
  and \<open>options\<close> with a default and no length, nullable.
\<close>

theorem create_column_statement_witness:
  \<open>createColumn (demo_env 7 (Inr ''items'') (Inr [])) ''items'' col_description demo_world
     = (None, \<lparr>db = 1,
               trace = [ExecEv ''ALTER TABLE items ADD COLUMN "description" varchar(255) NOT NULL'']\<rparr>)
   \<and> createColumn (demo_env 7 (Inr ''items'') (Inr [])) ''items'' col_options demo_world
     = (None, \<lparr>db = 1,
               trace = [ExecEv ''ALTER TABLE items ADD COLUMN "options" jsonb DEFAULT now()'']\<rparr>)\<close>
  using
    create_column_statement [of "demo_env 7 (Inr ''items'') (Inr [])" "''items''"
      col_description demo_world]
    create_column_statement [of "demo_env 7 (Inr ''items'') (Inr [])" "''items''"
      col_options demo_world]
  by (simp add: Itoa_255 demo_env_def demo_quote_def demo_world_def col_description_def
        col_options_def Let_def)

subsection \<open>C3: the order of an update\<close>

text \<open>
  C3. In every run of the update, the statements and queries added to the trace are, in
  this order: the rename statement, present exactly when this is not the initial creation,
  the name changed and the new name is not empty; then add-column statements, an initial
  part of the list for the appended columns, each addressing the table by the current
  identifier (the new name after a rename, the identifier the update started with
  otherwise); then, only after all of them, the read-back: the catalog probe for the
  current identifier and the column query. When the update returns nil, every DDL
  statement has been executed, the table has been re-read from the catalog in the state
  the DDL left, and the resource data is overwritten with what was observed: the observed
  name as identifier and as \<^verbatim>\<open>name\<close> and the observed columns as \<^verbatim>\<open>column\<close> when the
  table is found, the identifier cleared when the catalog reports no such table.
\<close>

theorem update_rename_then_columns_then_read_back:
  "let renamed = (\<not> is_new d \<and> name_old d \<noteq> name_new d \<and> name_new d \<noteq> []);
       ren = (if renamed then [rename_sql env (name_old d) (name_new d)] else []);
       cur = (if renamed then name_new d else res_id d);
       adds = map (createColumn_sql env cur) (drop (length (column_old d)) (column_new d));
       r = resourcePostgreSQLTableUpdateImpl env d w
   in (\<exists>k rb. trace (snd (snd r)) = trace w @ map ExecEv (ren @ take k adds) @ rb \<and>
         (rb = [] \<or>
          length adds \<le> k \<and>
          (rb = [QueryRowEv tableDescribeQuery cur] \<or>
           (\<exists>nm. rb = [QueryRowEv tableDescribeQuery cur, QueryEv columnsDescribeQuery nm]))))
    \<and> (fst r = Return None \<longrightarrow>
         (case QueryRow env tableDescribeQuery cur (db_after env (ren @ adds) (db w)) of
            (Inl e, s3) \<Rightarrow>
              e = ErrNoRows \<and>
              snd r =
                (d\<lparr>res_id := []\<rparr>,
                 \<lparr>db = s3,
                  trace = trace w @ map ExecEv (ren @ adds)
                            @ [QueryRowEv tableDescribeQuery cur]\<rparr>)
          | (Inr nm, s3) \<Rightarrow>
              (\<exists>rs s4. Query env columnsDescribeQuery nm s3 = (Inr (map Inr rs), s4) \<and>
                 snd r =
                   (d\<lparr>res_id := nm, name_set := Some nm,
                      column_set := Some (map column_of_row rs)\<rparr>,
                    \<lparr>db = s4,
                     trace = trace w @ map ExecEv (ren @ adds)
                               @ [QueryRowEv tableDescribeQuery cur,
                                  QueryEv columnsDescribeQuery nm]\<rparr>))))"
proof -
  let ?step = "if \<not> is_new d then renameTableIfNeeded env d w else (None, d, w)"
  let ?sql = "rename_sql env (name_old d) (name_new d)"
  let ?tail = "\<lambda>d1 w1. case alterColumnsIfNeeded env d1 w1 of
                  (Some err, w2) \<Rightarrow> (Return (Some err), d1, w2)
                | (None, w2) \<Rightarrow> resourcePostgreSQLTableReadImpl env d1 w2"
  have upd: "resourcePostgreSQLTableUpdateImpl env d w =
      (case ?step of (Some err, d1, w1) \<Rightarrow> (Return (Some err), d1, w1)
                   | (None, d1, w1) \<Rightarrow> ?tail d1 w1)"
    by (simp add: resourcePostgreSQLTableUpdateImpl_def)
  consider
      (same) "\<not> (\<not> is_new d \<and> name_old d \<noteq> name_new d)"
    | (empty) "\<not> is_new d" "name_old d \<noteq> name_new d" "name_new d = []"
    | (failed) err where "\<not> is_new d" "name_old d \<noteq> name_new d" "name_new d \<noteq> []"
        "fst (Exec env ?sql (db w)) = Some err"
    | (renamed) "\<not> is_new d" "name_old d \<noteq> name_new d" "name_new d \<noteq> []"
        "fst (Exec env ?sql (db w)) = None"
    by (cases "fst (Exec env ?sql (db w))") blast+
  then show ?thesis
  proof cases
    case same
    then have cond: "(\<not> is_new d \<and> name_old d \<noteq> name_new d) = False"
      by blast
    have r: "resourcePostgreSQLTableUpdateImpl env d w = ?tail d w"
      unfolding upd rename_step cond by simp
    have nren: "(\<not> is_new d \<and> name_old d \<noteq> name_new d \<and> name_new d \<noteq> []) = False"
      using same by blast
    show ?thesis
      unfolding Let_def r nren if_False
      by (rule tail_shape) simp_all
  next
    case empty
    then have r: "resourcePostgreSQLTableUpdateImpl env d w =
        (Return (Some (ErrorsNew ''Error setting table name to an empty string'')), d, w)"
      unfolding upd rename_step by simp
    from empty show ?thesis
      unfolding Let_def r by simp
  next
    case failed
    then have r: "resourcePostgreSQLTableUpdateImpl env d w =
        (Return (Some (Wrapf ''Error updating table NAME: {{err}}'' err)), d,
         \<lparr>db = snd (Exec env ?sql (db w)), trace = trace w @ [ExecEv ?sql]\<rparr>)"
      unfolding upd rename_step by simp
    from failed show ?thesis
      unfolding Let_def r
      by (simp add: exI [of _ "0::nat"])
  next
    case renamed
    let ?d1 = "d\<lparr>res_id := name_new d\<rparr>"
    let ?w1 = "\<lparr>db = snd (Exec env ?sql (db w)), trace = trace w @ [ExecEv ?sql]\<rparr>"
    from renamed have r: "resourcePostgreSQLTableUpdateImpl env d w = ?tail ?d1 ?w1"
      unfolding upd rename_step by simp
    have ren: "(\<not> is_new d \<and> name_old d \<noteq> name_new d \<and> name_new d \<noteq> []) = True"
      using renamed by blast
    show ?thesis
      unfolding Let_def r ren if_True
      by (rule tail_shape) simp_all
  qed
qed

text \<open>
  The table \<open>items\<close> renamed to \<open>items3\<close> with the column \<open>description\<close> appended: the
  rename, then the add-column statement on \<open>items3\<close>, then the two queries of the
  read-back, and the resource data holds the observed table.
\<close>

theorem update_rename_then_columns_then_read_back_witness:
  \<open>resourcePostgreSQLTableUpdateImpl
       (demo_env 7 (Inr ''items3'') (Inr [Inr row_id, Inr row_description]))
       (demo_items ''items3'' [col_id] [col_id, col_description]) demo_world
     = (Return None,
        \<lparr>res_id = ''items3'', is_new = False, name_old = ''items'', name_new = ''items3'',
         column_old = [col_id], column_new = [col_id, col_description],
         name_set = Some ''items3'',
         column_set = Some
           [\<lparr>name_attr = ''id'', type_attr = ''int'', max_length_attr = None,
             default_attr = None, is_null_attr = Some False\<rparr>,
            \<lparr>name_attr = ''description'', type_attr = ''varchar'', max_length_attr = Some 255,
             default_attr = None, is_null_attr = Some False\<rparr>]\<rparr>,
        \<lparr>db = 2,
         trace = [ExecEv ''ALTER TABLE "items" RENAME TO "items3"'',
                  ExecEv ''ALTER TABLE items3 ADD COLUMN "description" varchar(255) NOT NULL'',
                  QueryRowEv tableDescribeQuery ''items3'',
                  QueryEv columnsDescribeQuery ''items3'']\<rparr>)\<close>
  using update_rename_then_columns_then_read_back
    [of "demo_items ''items3'' [col_id] [col_id, col_description]"
        "demo_env 7 (Inr ''items3'') (Inr [Inr row_id, Inr row_description])" demo_world]
  by (simp add: resourcePostgreSQLTableUpdateImpl_def renameTableIfNeeded_def
        HasChange_name_def rename_sql_def db_Exec_eq SetId_def
        alterColumnsIfNeeded_def HasChange_column_def createColumn_Exec
        createColumn_sql_def buildColumnMaxLength_def buildColumnDefault_def
        buildColumnNotNull_def Itoa_255
        resourcePostgreSQLTableReadImpl_def db_QueryRow_eq columns_def db_Query_eq
        Set_name_def Set_column_def column_of_row_def useTypeAlias_def parseIsNullable_def
        ToLower_def lower_char_def
        demo_env_def demo_quote_def demo_items_def demo_world_def
        col_id_def col_description_def row_id_def row_description_def Let_def)

subsection \<open>C4: an empty rename target\<close>

text \<open>
  C4. An update whose name attribute changed and whose new name is the empty string fails
  with the validation error before any statement or query is issued: the connection (its
  database and its trace) and the resource data, the identifier included, are left as they
  were. A resource that is being created has no previous name, which is the first
  hypothesis; it holds in particular whenever \<^verbatim>\<open>IsNewResource\<close> is false, as in every call
  of the update operation on an existing resource.
\<close>

theorem empty_rename_target_rejected:
  assumes "is_new d \<longrightarrow> name_old d = []"
      and "name_old d \<noteq> name_new d"
      and "name_new d = []"
  shows "resourcePostgreSQLTableUpdate env d w =
           (Return (Some (ErrorsNew ''Error setting table name to an empty string'')), d, w)"
proof -
  from assms have "\<not> is_new d" by auto
  with assms(2,3) show ?thesis
    by (simp add: resourcePostgreSQLTableUpdate_def resourcePostgreSQLTableUpdateImpl_def
          renameTableIfNeeded_def HasChange_name_def)
qed

theorem empty_rename_target_rejected_witness:
  "\<not> is_new (demo_items [] [col_id] [col_id, col_description])
   \<and> name_old (demo_items [] [col_id] [col_id, col_description])
       \<noteq> name_new (demo_items [] [col_id] [col_id, col_description])
   \<and> name_new (demo_items [] [col_id] [col_id, col_description]) = []
   \<and> resourcePostgreSQLTableUpdate (demo_env 7 (Inr ''items'') (Inr []))
        (demo_items [] [col_id] [col_id, col_description]) demo_world
       = (Return (Some (ErrorsNew ''Error setting table name to an empty string'')),
          demo_items [] [col_id] [col_id, col_description], demo_world)"
  using empty_rename_target_rejected
    [of "demo_items [] [col_id] [col_id, col_description]"
        "demo_env 7 (Inr ''items'') (Inr [])" demo_world]
  by (simp add: demo_items_def)

subsection \<open>C5: a table that is not found\<close>

text \<open>
  C5. A catalog probe that returns no rows is not an error. When the existence query
  yields no rows, \<^verbatim>\<open>Exists\<close> returns false and a nil error; when the describe query
  yields no rows, \<^verbatim>\<open>Read\<close> clears the identifier, writes no other attribute and returns
  nil. Each of them issues that one query and nothing else.
\<close>

theorem no_rows_is_not_an_error:
  assumes "fst (QueryRow env tableExistsQuery (res_id d) (db w)) = Inl ErrNoRows"
      and "fst (QueryRow env tableDescribeQuery (res_id d) (db w)) = Inl ErrNoRows"
  shows "resourcePostgreSQLTableExists env d w =
           ((False, None),
            \<lparr>db = snd (QueryRow env tableExistsQuery (res_id d) (db w)),
             trace = trace w @ [QueryRowEv tableExistsQuery (res_id d)]\<rparr>)
       \<and> resourcePostgreSQLTableRead env d w =
           (Return None, d\<lparr>res_id := []\<rparr>,
            \<lparr>db = snd (QueryRow env tableDescribeQuery (res_id d) (db w)),
             trace = trace w @ [QueryRowEv tableDescribeQuery (res_id d)]\<rparr>)"
  using assms
  by (simp add: resourcePostgreSQLTableExists_def resourcePostgreSQLTableRead_def
        read_impl_absent db_QueryRow_eq)

theorem no_rows_is_not_an_error_witness:
  "resourcePostgreSQLTableExists (demo_env 7 (Inl ErrNoRows) (Inr []))
       (demo_items ''items'' [col_id] [col_id]) demo_world
     = ((False, None), \<lparr>db = 0, trace = [QueryRowEv tableExistsQuery ''items'']\<rparr>)
   \<and> resourcePostgreSQLTableRead (demo_env 7 (Inl ErrNoRows) (Inr []))
       (demo_items ''items'' [col_id] [col_id]) demo_world
     = (Return None,
        \<lparr>res_id = [], is_new = False, name_old = ''items'', name_new = ''items'',
         column_old = [col_id], column_new = [col_id], name_set = None, column_set = None\<rparr>,
        \<lparr>db = 0, trace = [QueryRowEv tableDescribeQuery ''items'']\<rparr>)"
  using no_rows_is_not_an_error
    [of "demo_env 7 (Inl ErrNoRows) (Inr [])" "demo_items ''items'' [col_id] [col_id]"
        demo_world]
  by (simp add: demo_env_def demo_items_def demo_world_def)

subsection \<open>C6: delete\<close>

text \<open>
  C6. Delete is logical-only: for every input state it clears the local identifier,
  changes nothing else in the resource data, issues no statement and no query (the
  database and the trace are those it was given) and returns nil.
\<close>

theorem delete_logical_only:
  "resourcePostgreSQLTableDelete env d w = (Return None, d\<lparr>res_id := []\<rparr>, w)"
  by (simp add: resourcePostgreSQLTableDelete_def SetId_def)

subsection \<open>C7: column additions, one statement at a time\<close>

text \<open>
  C7. The appended columns are added by one statement each, in the order of the declared
  list. When the database accepts them all, all are issued, in that order, and the result
  is nil. When it accepts the first \<open>k\<close> of them and the next one fails with \<open>e\<close>, the
  function returns \<open>e\<close> wrapped; the statements issued are exactly those \<open>k\<close> and the
  failing one, the database is the one that they left (nothing is rolled back) and no
  later statement is attempted.
\<close>

theorem add_columns_stop_at_first_failure:
  "let stmts = map (createColumn_sql env (res_id d))
                 (drop (length (column_old d)) (column_new d))
   in (all_accepted env stmts (db w) \<longrightarrow>
       alterColumnsIfNeeded env d w =
         (None, \<lparr>db = db_after env stmts (db w), trace = trace w @ map ExecEv stmts\<rparr>))
    \<and> (k < length stmts \<and> all_accepted env (take k stmts) (db w) \<and>
        fst (Exec env (stmts ! k) (db_after env (take k stmts) (db w))) = Some e \<longrightarrow>
        alterColumnsIfNeeded env d w =
          (Some (Wrapf ''Error updating table NAME: {{err}}'' e),
           \<lparr>db = db_after env (take (Suc k) stmts) (db w),
            trace = trace w @ map ExecEv (take (Suc k) stmts)\<rparr>))"
  unfolding Let_def alterColumnsIfNeeded_exec_seq
  using exec_seq_all_ok exec_seq_fail_at by blast

text \<open>
  Three columns appended to \<open>[id]\<close>. A database that accepts every statement gets all
  three; one that rejects the second statement gets the first two statements, keeps the
  first column and never sees the third.
\<close>

theorem add_columns_stop_at_first_failure_witness:
  \<open>alterColumnsIfNeeded (demo_env 7 (Inr ''items'') (Inr []))
       (demo_items ''items'' [col_id] [col_id, col_description, col_options, col_id])
       demo_world
     = (None,
        \<lparr>db = 3,
         trace = [ExecEv ''ALTER TABLE items ADD COLUMN "description" varchar(255) NOT NULL'',
                  ExecEv ''ALTER TABLE items ADD COLUMN "options" jsonb DEFAULT now()'',
                  ExecEv ''ALTER TABLE items ADD COLUMN "id" int NOT NULL'']\<rparr>)
   \<and> alterColumnsIfNeeded (demo_env 1 (Inr ''items'') (Inr []))
       (demo_items ''items'' [col_id] [col_id, col_description, col_options, col_id])
       demo_world
     = (Some (Wrapf ''Error updating table NAME: {{err}}'' (DriverError ''rejected'')),
        \<lparr>db = 1,
         trace = [ExecEv ''ALTER TABLE items ADD COLUMN "description" varchar(255) NOT NULL'',
                  ExecEv ''ALTER TABLE items ADD COLUMN "options" jsonb DEFAULT now()'']\<rparr>)\<close>
  using
    add_columns_stop_at_first_failure
      [of "demo_env 7 (Inr ''items'') (Inr [])"
          "demo_items ''items'' [col_id] [col_id, col_description, col_options, col_id]"
          demo_world 0 "DriverError ''rejected''"]
    add_columns_stop_at_first_failure
      [of "demo_env 1 (Inr ''items'') (Inr [])"
          "demo_items ''items'' [col_id] [col_id, col_description, col_options, col_id]"
          demo_world 1 "DriverError ''rejected''"]
  by (simp add: createColumn_sql_def buildColumnMaxLength_def buildColumnDefault_def
        buildColumnNotNull_def Itoa_255 demo_env_def demo_quote_def demo_items_def
        demo_world_def col_id_def col_description_def col_options_def Let_def)

subsection \<open>C8: errors of the column query\<close>

text \<open>
  C8. The claim is that every query or scan error of \<^verbatim>\<open>columns\<close> is returned to the
  caller. A scan error is (lemma \<open>columns_scan_error_returned\<close>). The error of the query
  itself is not: \<^verbatim>\<open>rows, _ := db.Query(...)\<close> discards it, and the loop then calls
  \<^verbatim>\<open>rows.Next()\<close> on the nil \<^verbatim>\<open>rows\<close>. With a database whose column query fails,
  \<^verbatim>\<open>columns\<close> panics instead of returning the error, and so does the read that calls it.
\<close>

theorem columns_drops_query_error:
  "columns (demo_env 7 (Inr ''items'') (Inl (DriverError ''connection refused'')))
       ''items'' demo_world
     = (Panic, \<lparr>db = 0, trace = [QueryEv columnsDescribeQuery ''items'']\<rparr>)
   \<and> fst (resourcePostgreSQLTableRead
            (demo_env 7 (Inr ''items'') (Inl (DriverError ''connection refused'')))
            (demo_items ''items'' [col_id] [col_id]) demo_world)
     = Panic"
  by (simp add: resourcePostgreSQLTableRead_def resourcePostgreSQLTableReadImpl_def
        db_QueryRow_eq columns_query_error_panics demo_env_def demo_items_def
        demo_world_def Let_def)

subsection \<open>C10: a create statement that fails\<close>

text \<open>
  C10. When the \<^verbatim>\<open>CREATE TABLE\<close> statement fails with \<open>e\<close>, \<^verbatim>\<open>Create\<close> returns \<open>e\<close>
  wrapped in a message that names the table; the resource data is untouched, so no
  identifier is set, and the create statement is the only one issued: no rename, no
  add-column statement, no query.
\<close>

theorem create_failure_sets_no_id:
  assumes "fst (Exec env (''CREATE TABLE '' @ QuoteIdentifier env (Get_name d) @ '' ()'') (db w))
             = Some e"
  shows "resourcePostgreSQLTableCreate env d w =
           (Return (Some (Wrapf (''Error creating table '' @ Get_name d @ '': {{err}}'') e)), d,
            \<lparr>db = snd (Exec env (''CREATE TABLE '' @ QuoteIdentifier env (Get_name d) @ '' ()'')
                          (db w)),
             trace = trace w
               @ [ExecEv (''CREATE TABLE '' @ QuoteIdentifier env (Get_name d) @ '' ()'')]\<rparr>)"
  using assms
  by (simp add: resourcePostgreSQLTableCreate_def create_sql_def db_Exec_eq Let_def)

theorem create_failure_sets_no_id_witness:
  \<open>resourcePostgreSQLTableCreate (demo_env 0 (Inr ''items'') (Inr [])) demo_new_items demo_world
     = (Return (Some (Wrapf ''Error creating table items: {{err}}'' (DriverError ''rejected''))),
        demo_new_items,
        \<lparr>db = 0, trace = [ExecEv ''CREATE TABLE "items" ()'']\<rparr>)
   \<and> res_id demo_new_items = []\<close>
  using create_failure_sets_no_id
    [of "demo_env 0 (Inr ''items'') (Inr [])" demo_new_items demo_world "DriverError ''rejected''"]
  by (simp add: Get_name_def demo_env_def demo_quote_def demo_new_items_def demo_world_def)

end
